theory Spec2Isabelle
  imports Complex_Main
begin

section \<open>React elements\<close>

text \<open>
  A component of the repository is a function from its props (and, where it uses
  \<^verbatim>\<open>useState\<close>, its current state) to the React element its JSX denotes. A JSX
  expression \<^verbatim>\<open><T a={v}>kids</T>\<close> is the element with type \<^verbatim>\<open>T\<close>, the props it
  writes, in the order written, and its children; it does not call \<^verbatim>\<open>T\<close>. A lower-case
  tag is an intrinsic (host) element, a capitalised or dotted one refers to a component.
  A JavaScript function returns or throws: the result type is \<open>error + node\<close>, with
  \<open>Inl\<close> for a throw. The \<^verbatim>\<open>key\<close> of an element is listed with its props.
\<close>

datatype error = TypeError string

record user =
  name :: string
  email :: string
  avatar :: string

datatype prop_value = Str string | Flag bool | Obj user

datatype elem_type = Intrinsic string | Component string

datatype node =
    Element elem_type "(string \<times> prop_value) list" "node list"
  | Text string
  | Fragment "node list"

fun type_of :: "node \<Rightarrow> elem_type option" where
  "type_of (Element t ps ks) = Some t"
| "type_of (Text s) = None"
| "type_of (Fragment ks) = None"

fun props_of :: "node \<Rightarrow> (string \<times> prop_value) list" where
  "props_of (Element t ps ks) = ps"
| "props_of (Text s) = []"
| "props_of (Fragment ks) = []"

fun children_of :: "node \<Rightarrow> node list" where
  "children_of (Element t ps ks) = ks"
| "children_of (Text s) = []"
| "children_of (Fragment ks) = ks"

text \<open>The first child of a node that is an element of the given type.\<close>

definition child_named :: "elem_type \<Rightarrow> node \<Rightarrow> node option" where
  "child_named t n = find (\<lambda>k. type_of k = Some t) (children_of n)"

text \<open>The text a subtree shows: its text nodes, left to right.\<close>

fun text_content :: "node \<Rightarrow> string" where
  "text_content (Text s) = s"
| "text_content (Element t ps ks) = concat (map text_content ks)"
| "text_content (Fragment ks) = concat (map text_content ks)"

text \<open>The \<^verbatim>\<open>href\<close> of every \<^verbatim>\<open>Link\<close> element of a subtree that has one, in document order.\<close>

definition href_of :: "elem_type \<Rightarrow> (string \<times> prop_value) list \<Rightarrow> string list" where
  "href_of t ps =
     (if t = Component ''Link''
      then (case map_of ps ''href'' of Some (Str h) \<Rightarrow> [h] | _ \<Rightarrow> [])
      else [])"

fun link_targets :: "node \<Rightarrow> string list" where
  "link_targets (Text s) = []"
| "link_targets (Element t ps ks) = href_of t ps @ concat (map link_targets ks)"
| "link_targets (Fragment ks) = concat (map link_targets ks)"





section \<open>The dashboard sidebar (sidebar.tsx)\<close>



text \<open>
  An entry of \<^verbatim>\<open>DASHBOARD_MENU\<close>. The constant is imported from
  \<^verbatim>\<open>@/shared/constants/router\<close>, so the list is a parameter of the component; the
  sidebar reads the fields \<^verbatim>\<open>title\<close>, \<^verbatim>\<open>url\<close> and \<^verbatim>\<open>icon\<close> of an entry, the last
  a component, held here by its name.
\<close>

record menu_entry =
  title :: string
  url :: string
  icon :: string

definition sidebar_user :: user where
  "sidebar_user =
     \<lparr>name = ''John Doe'', email = ''6Kt0P@example.com'',
      avatar = ''https://github.com/brunorocha.png''\<rparr>"

text \<open>The body of the arrow function given to \<^verbatim>\<open>DASHBOARD_MENU.map\<close>.\<close>

definition menu_item :: "menu_entry \<Rightarrow> node" where
  "menu_item item =
     Element (Component ''SidebarMenuItem'') [(''key'', Str (title item))]
       [Element (Component ''SidebarMenuButton'') [(''asChild'', Flag True)]
          [Element (Component ''Link'') [(''href'', Str (url item))]
             [Element (Component (icon item)) [] [],
              Element (Intrinsic ''span'') [] [Text (title item)]]]]"

definition DashboardSidebar :: "menu_entry list \<Rightarrow> error + node" where
  "DashboardSidebar DASHBOARD_MENU =
     (let user = sidebar_user in
      Inr (Element (Component ''Sidebar'')
             [(''collapsible'', Str ''icon''), (''variant'', Str ''floating'')]
             [Element (Component ''SidebarHeader'') []
                [Element (Component ''SidebarMenu'') []
                   [Element (Component ''SidebarMenuItem'') []
                      [Element (Component ''SidebarMenuButton'') [(''asChild'', Flag True)]
                         [Element (Component ''Link'') [(''href'', Str ''/dashboard'')]
                            [Element (Component ''LayoutDashboardIcon'') [] [],
                             Element (Intrinsic ''span'') [] [Text ''App name'']]]]]],
              Element (Component ''SidebarContent'') []
                [Element (Component ''SidebarGroup'') []
                   [Element (Component ''SidebarGroupContent'') []
                      [Element (Component ''SidebarMenu'') []
                         (map menu_item DASHBOARD_MENU)]]],
              Element (Component ''SidebarFooter'') []
                [Element (Component ''SidebarMenu'') []
                   [Element (Component ''SidebarMenuItem'') []
                      [Element (Component ''ProfileDropdown'')
                         [(''user'', Obj user), (''side'', Str ''right'')] []]]]]))"

text \<open>
  The content sections of the sidebar: every child of the \<^verbatim>\<open>Sidebar\<close> element that is a
  \<^verbatim>\<open>SidebarContent\<close>.
\<close>

definition content_sections :: "node \<Rightarrow> node list" where
  "content_sections sidebar =
     filter (\<lambda>k. type_of k = Some (Component ''SidebarContent'')) (children_of sidebar)"

text \<open>The \<^verbatim>\<open>ProfileDropdown\<close> of the footer.\<close>

definition footer_profile :: "node \<Rightarrow> node option" where
  "footer_profile sidebar =
     (case child_named (Component ''SidebarFooter'') sidebar of
        None \<Rightarrow> None
      | Some f \<Rightarrow>
     (case child_named (Component ''SidebarMenu'') f of
        None \<Rightarrow> None
      | Some m \<Rightarrow>
     (case child_named (Component ''SidebarMenuItem'') m of
        None \<Rightarrow> None
      | Some i \<Rightarrow> child_named (Component ''ProfileDropdown'') i)))"

text \<open>The props the sidebar gives to the \<^verbatim>\<open>ProfileDropdown\<close> of its footer.\<close>

definition sidebar_profile_props :: "menu_entry list \<Rightarrow> (string \<times> prop_value) list option" where
  "sidebar_profile_props menu =
     (case DashboardSidebar menu of
        Inl e \<Rightarrow> None
      | Inr t \<Rightarrow> map_option props_of (footer_profile t))"

section \<open>Class names\<close>

text \<open>
  An argument of \<^verbatim>\<open>cn\<close> as the components pass it: a string, or the \<^verbatim>\<open>false\<close> or
  \<^verbatim>\<open>undefined\<close> that \<^verbatim>\<open>fixed && "..."\<close> and an absent \<^verbatim>\<open>className\<close> evaluate to.
\<close>

datatype class_value = CStr string | CFalse | CUndefined

text \<open>
  Modelled from the spec: \<^verbatim>\<open>cn\<close> of \<^verbatim>\<open>@/shared/lib/utils\<close>, which is not among the
  source files; the spec names it only as CSS utility composition. It is taken as the
  class-name joiner: falsy arguments and empty strings are dropped, the other strings are
  joined by single spaces in argument order. Any resolution of conflicting utility
  classes that the missing helper may add is not modelled.
\<close>

definition add_class :: "string \<Rightarrow> class_value \<Rightarrow> string" where
  "add_class n e =
     (case e of
        CStr t \<Rightarrow> (if t = [] then n else if n = [] then t else n @ '' '' @ t)
      | CFalse \<Rightarrow> n
      | CUndefined \<Rightarrow> n)"

definition cn :: "class_value list \<Rightarrow> string" where
  "cn inputs = foldl add_class [] inputs"

text \<open>
  The class list of an element is its \<^verbatim>\<open>className\<close> split at ASCII whitespace
  (space, tab, line feed, form feed, carriage return), as the DOM's \<^verbatim>\<open>classList\<close> does.
\<close>

definition is_space :: "char \<Rightarrow> bool" where
  "is_space c =
     (c = CHR '' '' \<or> c = CHR 0x09 \<or> c = CHR 0x0A \<or> c = CHR 0x0C \<or> c = CHR 0x0D)"

fun split_ws :: "string \<Rightarrow> string \<Rightarrow> string list" where
  "split_ws cur [] = (if cur = [] then [] else [cur])"
| "split_ws cur (c # cs) =
     (if is_space c
      then (if cur = [] then split_ws [] cs else cur # split_ws [] cs)
      else split_ws (cur @ [c]) cs)"

definition class_tokens :: "string \<Rightarrow> string list" where
  "class_tokens s = split_ws [] s"

definition class_list :: "node \<Rightarrow> string list" where
  "class_list n =
     (case map_of (props_of n) ''className'' of
        Some (Str s) \<Rightarrow> class_tokens s
      | _ \<Rightarrow> [])"

text \<open>The class list of what a component returned; a throw shows no class.\<close>

definition classes_of :: "error + node \<Rightarrow> string list" where
  "classes_of r = (case r of Inl e \<Rightarrow> [] | Inr n \<Rightarrow> class_list n)"

text \<open>The strings among the arguments of \<^verbatim>\<open>cn\<close>, in order.\<close>

fun class_strings :: "class_value list \<Rightarrow> string list" where
  "class_strings [] = []"
| "class_strings (CStr t # es) = t # class_strings es"
| "class_strings (e # es) = class_strings es"

section \<open>The dashboard header (header.tsx)\<close>

text \<open>
  \<^verbatim>\<open>HeaderProps\<close> after the destructuring \<^verbatim>\<open>{ className, fixed, children, ...props }\<close>:
  \<open>rest\<close> holds the other attributes, so none of the three named keys is in it. An
  optional prop that is absent is \<open>None\<close> (\<^verbatim>\<open>undefined\<close>).
\<close>

record header_props =
  className :: "string option"
  fixed :: "bool option"
  children :: "node list"
  rest :: "(string \<times> prop_value) list"

text \<open>\<^verbatim>\<open>fixed && s\<close>: the string when \<^verbatim>\<open>fixed\<close> is truthy, else the falsy value of \<^verbatim>\<open>fixed\<close>.\<close>

definition truthy :: "bool option \<Rightarrow> bool" where
  "truthy b = (b = Some True)"

definition and_class :: "bool option \<Rightarrow> string \<Rightarrow> class_value" where
  "and_class b s =
     (case b of Some True \<Rightarrow> CStr s | Some False \<Rightarrow> CFalse | None \<Rightarrow> CUndefined)"

definition optional_class :: "string option \<Rightarrow> class_value" where
  "optional_class c = (case c of None \<Rightarrow> CUndefined | Some s \<Rightarrow> CStr s)"

text \<open>\<^verbatim>\<open>React.useState(0)\<close>: the offset at the first render.\<close>

definition initial_offset :: real where
  "initial_offset = 0"

text \<open>The component at a render with the given props and the current \<^verbatim>\<open>offset\<close> state.\<close>

definition DashboardHeader :: "header_props \<Rightarrow> real \<Rightarrow> error + node" where
  "DashboardHeader p offset =
     Inr (Element (Intrinsic ''header'')
            ((''className'',
              Str (cn [CStr ''bg-background flex h-16 items-center gap-3 p-4 sm:gap-4'',
                       and_class (fixed p)
                         ''header-fixed peer/header fixed z-50 w-[inherit] rounded-md'',
                       CStr (if offset > 10 \<and> truthy (fixed p)
                             then ''shadow-sm'' else ''shadow-none''),
                       optional_class (className p)]))
             # rest p)
            ([Element (Component ''SidebarTrigger'')
                [(''variant'', Str ''outline''), (''className'', Str ''scale-125 sm:scale-100'')]
                [],
              Element (Component ''Separator'')
                [(''orientation'', Str ''vertical''), (''className'', Str ''h-6'')] []]
             @ children p))"

text \<open>
  The classes the header contributes itself, by its first three arguments to \<^verbatim>\<open>cn\<close>, and
  the classes the caller's \<^verbatim>\<open>className\<close> contributes.
\<close>

definition own_classes :: "bool option \<Rightarrow> real \<Rightarrow> string list" where
  "own_classes f off =
     [''bg-background'', ''flex'', ''h-16'', ''items-center'', ''gap-3'', ''p-4'', ''sm:gap-4'']
     @ (if truthy f
        then [''header-fixed'', ''peer/header'', ''fixed'', ''z-50'', ''w-[inherit]'',
              ''rounded-md'']
        else [])
     @ [if off > 10 \<and> truthy f then ''shadow-sm'' else ''shadow-none'']"

definition caller_classes :: "string option \<Rightarrow> string list" where
  "caller_classes c = (case c of None \<Rightarrow> [] | Some s \<Rightarrow> class_tokens s)"

subsection \<open>The scroll effect\<close>

text \<open>
  The effect works on the document, so the document is part of the state: its two
  scroll positions and its event listener list. Function objects are held in a store
  and named by their index; a closure made by a run of the effect is a new object.
  \<open>offset\<close> is the component's state and \<open>cleanup\<close> the closure that the pending
  cleanup of the effect captured, if the effect has run and not been cleaned up.
\<close>

datatype closure = OnScroll | Foreign

record listener =
  event_type :: string
  callback :: nat
  capture :: bool
  is_passive :: bool

record world =
  body_scrollTop :: real
  documentElement_scrollTop :: real
  listeners :: "listener list"
  closures :: "closure list"
  offset :: real
  cleanup :: "nat option"

text \<open>\<^verbatim>\<open>setOffset(document.body.scrollTop || document.documentElement.scrollTop)\<close>\<close>

definition onScroll :: "world \<Rightarrow> world" where
  "onScroll w =
     w\<lparr>offset := (if body_scrollTop w \<noteq> 0 then body_scrollTop w
                  else documentElement_scrollTop w)\<rparr>"

text \<open>
  The DOM's listener list: a listener is appended unless one with the same type,
  callback and capture flag is there; removal takes out the first listener with the
  given type, callback and capture flag. The options \<^verbatim>\<open>{ passive: true }\<close> leave
  \<^verbatim>\<open>capture\<close> false, as does a call without options.
\<close>

definition same_listener :: "string \<Rightarrow> nat \<Rightarrow> bool \<Rightarrow> listener \<Rightarrow> bool" where
  "same_listener ty cb cap l = (event_type l = ty \<and> callback l = cb \<and> capture l = cap)"

definition addEventListener :: "string \<Rightarrow> nat \<Rightarrow> bool \<Rightarrow> bool \<Rightarrow> world \<Rightarrow> world" where
  "addEventListener ty cb cap pas w =
     (if list_ex (same_listener ty cb cap) (listeners w) then w
      else w\<lparr>listeners := listeners w
                 @ [\<lparr>event_type = ty, callback = cb, capture = cap, is_passive = pas\<rparr>]\<rparr>)"

fun remove_first :: "('a \<Rightarrow> bool) \<Rightarrow> 'a list \<Rightarrow> 'a list" where
  "remove_first P [] = []"
| "remove_first P (x # xs) = (if P x then xs else x # remove_first P xs)"

definition removeEventListener :: "string \<Rightarrow> nat \<Rightarrow> bool \<Rightarrow> world \<Rightarrow> world" where
  "removeEventListener ty cb cap w =
     w\<lparr>listeners := remove_first (same_listener ty cb cap) (listeners w)\<rparr>"

text \<open>
  The body of the effect: it makes the closure \<^verbatim>\<open>onScroll\<close>, registers it and returns the
  cleanup, which holds that closure.
\<close>

definition effect :: "world \<Rightarrow> world" where
  "effect w =
     (let h = length (closures w);
          w1 = w\<lparr>closures := closures w @ [OnScroll]\<rparr>;
          w2 = addEventListener ''scroll'' h False True w1
      in w2\<lparr>cleanup := Some h\<rparr>)"

definition run_cleanup :: "world \<Rightarrow> world" where
  "run_cleanup w =
     (case cleanup w of
        None \<Rightarrow> w
      | Some h \<Rightarrow> (removeEventListener ''scroll'' h False w)\<lparr>cleanup := None\<rparr>)"

text \<open>
  Dispatching an event calls the callbacks of the listeners of its type, in order. A
  callback that is not a closure of this component belongs to other code and is left
  out.
\<close>

definition call_listener :: "listener \<Rightarrow> world \<Rightarrow> world" where
  "call_listener l w =
     (if callback l < length (closures w)
      then (case closures w ! callback l of OnScroll \<Rightarrow> onScroll w | Foreign \<Rightarrow> w)
      else w)"

definition dispatch :: "string \<Rightarrow> world \<Rightarrow> world" where
  "dispatch ty w = fold call_listener (filter (\<lambda>l. event_type l = ty) (listeners w)) w"

text \<open>
  What happens to a mounted header: with the dependency list \<^verbatim>\<open>[]\<close> the effect runs
  when the component mounts and its cleanup when it unmounts; in between the document is
  scrolled to new positions and fires \<^verbatim>\<open>scroll\<close>.
\<close>

datatype event = Mount | Unmount | Scroll real real

fun step :: "event \<Rightarrow> world \<Rightarrow> world" where
  "step Mount w = (if cleanup w = None then effect (w\<lparr>offset := initial_offset\<rparr>) else w)"
| "step Unmount w = run_cleanup w"
| "step (Scroll b d) w =
     dispatch ''scroll'' (w\<lparr>body_scrollTop := b, documentElement_scrollTop := d\<rparr>)"

definition run :: "event list \<Rightarrow> world \<Rightarrow> world" where
  "run evs w = fold step evs w"

fun is_scroll :: "event \<Rightarrow> bool" where
  "is_scroll (Scroll b d) = True"
| "is_scroll Mount = False"
| "is_scroll Unmount = False"

text \<open>
  A world the component can be mounted into: no cleanup is pending, and every
  registered callback is a function object that exists.
\<close>

definition unmounted :: "world \<Rightarrow> bool" where
  "unmounted w =
     (cleanup w = None \<and> list_all (\<lambda>l. callback l < length (closures w)) (listeners w))"

text \<open>The listener the effect registers for the closure \<open>h\<close>.\<close>

definition scroll_listener :: "nat \<Rightarrow> listener" where
  "scroll_listener h =
     \<lparr>event_type = ''scroll'', callback = h, capture = False, is_passive = True\<rparr>"

text \<open>
  The state of the listener list relative to the list \<open>L\<close> the component found:
  unmounted, the list is \<open>L\<close>; mounted, it is \<open>L\<close> followed by the one listener of
  the pending cleanup's closure, which no listener of \<open>L\<close> calls.
\<close>

definition attached :: "listener list \<Rightarrow> world \<Rightarrow> bool" where
  "attached L w =
     (list_all (\<lambda>l. callback l < length (closures w)) (listeners w) \<and>
      (case cleanup w of
         None \<Rightarrow> listeners w = L
       | Some h \<Rightarrow> h < length (closures w) \<and> closures w ! h = OnScroll
                   \<and> listeners w = L @ [scroll_listener h]
                   \<and> list_all (\<lambda>l. callback l \<noteq> h) L))"

section \<open>The dashboard layout (layout.tsx) and the route files\<close>

definition DashboardLayout :: "node list \<Rightarrow> error + node" where
  "DashboardLayout kids =
     Inr (Element (Component ''SidebarProvider'') []
            [Element (Component ''DashboardSidebar'') [] [],
             Element (Intrinsic ''div'')
               [(''id'', Str ''content''),
                (''className'',
                 Str (cn [CStr ''ml-auto w-full max-w-full'',
                          CStr ''peer-data-[state=collapsed]:w-[calc(100%-var(--sidebar-width-icon)-1rem)]'',
                          CStr ''peer-data-[state=expanded]:w-[calc(100%-var(--sidebar-width))]'',
                          CStr ''sm:transition-[width] sm:duration-200 sm:ease-linear'',
                          CStr ''flex h-svh flex-col'',
                          CStr ''group-data-[scroll-locked=1]/body:h-full'',
                          CStr ''has-[main.fixed-main]:group-data-[scroll-locked=1]/body:h-svh'']))]
               kids])"

text \<open>The two route-level layouts, each the default export \<^verbatim>\<open>Layout\<close> of its file.\<close>

definition Layout_dashboard :: "node list \<Rightarrow> error + node" where
  "Layout_dashboard kids = Inr (Element (Component ''DashboardLayout'') [] kids)"

definition Layout_public :: "node list \<Rightarrow> error + node" where
  "Layout_public kids = Inr (Element (Component ''PublicLayout'') [] kids)"

text \<open>The two dashboard pages, each the default export \<^verbatim>\<open>DashboardPage\<close> of its file.\<close>



definition page_user :: user where
  "page_user =
     \<lparr>name = ''John Doe'', email = ''6Kt0P@example.com'',
      avatar = ''https://github.com/brunorocha.png''\<rparr>"

definition DashboardPage_profile :: "error + node" where
  "DashboardPage_profile =
     (let user = page_user in
      Inr (Fragment
             [Element (Component ''DashboardHeader'') []
                [Element (Intrinsic ''div'')
                   [(''className'', Str ''ml-auto flex items-center space-x-4'')]
                   [Element (Component ''ProfileDropdown'')
                      [(''user'', Obj user), (''side'', Str ''bottom'')] []]],
              Element (Component ''DashboardMain'') [] [Text ''Dashboard'']]))"

definition DashboardPage_plain :: "error + node" where
  "DashboardPage_plain =
     Inr (Fragment
            [Element (Component ''DashboardHeader'') [] [],
             Element (Component ''DashboardMain'') [] [Text ''Dashboard'']])"

text \<open>The \<^verbatim>\<open>ProfileDropdown\<close> in the header of the page.\<close>

definition header_profile :: "node \<Rightarrow> node option" where
  "header_profile page =
     (case child_named (Component ''DashboardHeader'') page of
        None \<Rightarrow> None
      | Some h \<Rightarrow>
     (case child_named (Intrinsic ''div'') h of
        None \<Rightarrow> None
      | Some d \<Rightarrow> child_named (Component ''ProfileDropdown'') d))"

text \<open>The props the page gives to the \<^verbatim>\<open>ProfileDropdown\<close> of its header.\<close>

definition page_profile_props :: "(string \<times> prop_value) list option" where
  "page_profile_props =
     (case DashboardPage_profile of
        Inl e \<Rightarrow> None
      | Inr t \<Rightarrow> map_option props_of (header_profile t))"

text \<open>
  React renders an element whose type is a function component by calling the component
  with the element's props. For the two layout components the only prop is
  \<^verbatim>\<open>children\<close>. \<^verbatim>\<open>PublicLayout\<close> is imported from \<^verbatim>\<open>@/shared/components/layouts\<close>
  and is a parameter here.
\<close>

definition call_layout :: "(node list \<Rightarrow> error + node) \<Rightarrow> node \<Rightarrow> (error + node) option" where
  "call_layout PublicLayout n =
     (if type_of n = Some (Component ''DashboardLayout'') \<and> props_of n = []
      then Some (DashboardLayout (children_of n))
      else if type_of n = Some (Component ''PublicLayout'') \<and> props_of n = []
      then Some (PublicLayout (children_of n))
      else None)"

section \<open>The public header\<close>

definition nav_link_class :: string where
  "nav_link_class =
     ''flex items-center text-sm font-medium text-muted-foreground transition-colors hover:text-foreground''"

definition PublicHeader :: "error + node" where
  "PublicHeader =
     Inr (Element (Intrinsic ''header'')
            [(''className'',
              Str ''sticky top-0 z-40 w-full border-b bg-background/95 backdrop-blur supports-[backdrop-filter]:bg-background/60'')]
            [Element (Intrinsic ''div'')
               [(''className'', Str ''container flex h-16 items-center justify-between'')]
               [Element (Intrinsic ''div'')
                  [(''className'', Str ''flex items-center gap-6 md:gap-10'')]
                  [Element (Component ''Link'')
                     [(''href'', Str ''/''), (''className'', Str ''flex items-center space-x-2'')]
                     [Element (Intrinsic ''span'') [(''className'', Str ''font-bold text-xl'')]
                        [Text ''App name'']],
                   Element (Intrinsic ''nav'') [(''className'', Str ''hidden md:flex gap-6'')]
                     [Element (Component ''Link'')
                        [(''href'', Str ''/features''), (''className'', Str nav_link_class)]
                        [Text ''Features''],
                      Element (Component ''Link'')
                        [(''href'', Str ''/pricing''), (''className'', Str nav_link_class)]
                        [Text ''Pricing''],
                      Element (Component ''Link'')
                        [(''href'', Str ''/docs''), (''className'', Str nav_link_class)]
                        [Text ''Documentation'']]],
                Element (Intrinsic ''div'')
                  [(''className'', Str ''hidden items-center gap-4 md:flex'')]
                  [Element (Component ''Button'')
                     [(''variant'', Str ''ghost''), (''asChild'', Flag True)]
                     [Element (Component ''Link'') [(''href'', Str ''/signin'')]
                        [Text ''Sign in'']],
                   Element (Component ''Button'') [(''asChild'', Flag True)]
                     [Element (Component ''Link'') [(''href'', Str ''/signup'')]
                        [Text ''Get started'']],
                   Element (Component ''Button'') [(''asChild'', Flag True)]
                     [Element (Component ''Link'') [(''href'', Str ''/dashboard'')]
                        [Text ''Dashboard'']]]]])"

section \<open>The authentication configuration\<close>

text \<open>
  The object given to \<^verbatim>\<open>NextAuth\<close>. A provider is named by its module under
  \<^verbatim>\<open>next-auth/providers\<close>, the database client by the module that exports the shared
  instance; \<^verbatim>\<open>PrismaAdapter\<close> is the adapter of \<^verbatim>\<open>@auth/prisma-adapter\<close> over a client.
\<close>

datatype provider = Provider string

datatype db_client = Client string

datatype session_adapter = PrismaAdapter db_client

record auth_config =
  adapter :: session_adapter
  providers :: "provider list"

definition Google :: provider where
  "Google = Provider ''next-auth/providers/google''"

definition prisma :: db_client where
  "prisma = Client ''@/shared/lib/prisma''"

definition nextauth_config :: auth_config where
  "nextauth_config = \<lparr>adapter = PrismaAdapter prisma, providers = [Google]\<rparr>"






section \<open>Properties of the sidebar\<close>

lemma link_targets_menu_item: "link_targets (menu_item item) = [url item]"
  by (simp add: menu_item_def href_of_def)

lemma text_content_menu_item: "text_content (menu_item item) = title item"
  by (simp add: menu_item_def)

lemma type_of_menu_item: "type_of (menu_item item) = Some (Component ''SidebarMenuItem'')"
  by (simp add: menu_item_def)

lemma link_targets_menu: "concat (map link_targets (map menu_item menu)) = map url menu"
  by (induction menu) (simp_all add: link_targets_menu_item)

lemma content_sections_DashboardSidebar:
  "DashboardSidebar menu = Inr t \<Longrightarrow>
   content_sections t =
     [Element (Component ''SidebarContent'') []
        [Element (Component ''SidebarGroup'') []
           [Element (Component ''SidebarGroupContent'') []
              [Element (Component ''SidebarMenu'') [] (map menu_item menu)]]]]"
  by (auto simp add: DashboardSidebar_def content_sections_def)

text \<open>
  C1. For every list \<^verbatim>\<open>DASHBOARD_MENU\<close>, the sidebar returns an element with exactly
  one content section, which holds one group, one group content and one menu and nothing
  else; the children of that menu are exactly one \<^verbatim>\<open>SidebarMenuItem\<close> per entry, in the
  order of the list; the only link target of the i-th item is the \<^verbatim>\<open>url\<close> of the i-th
  entry and the text it shows is that entry's \<^verbatim>\<open>title\<close>. So the link targets of the
  whole content section are the urls of the list, in order, and its text is the titles.
\<close>

theorem sidebar_one_item_per_route:
  "\<exists>t c items. DashboardSidebar menu = Inr t
     \<and> content_sections t = [c]
     \<and> c = Element (Component ''SidebarContent'') []
             [Element (Component ''SidebarGroup'') []
                [Element (Component ''SidebarGroupContent'') []
                   [Element (Component ''SidebarMenu'') [] items]]]
     \<and> length items = length menu
     \<and> map type_of items = map (\<lambda>e. Some (Component ''SidebarMenuItem'')) menu
     \<and> map link_targets items = map (\<lambda>e. [url e]) menu
     \<and> map text_content items = map title menu
     \<and> link_targets c = map url menu
     \<and> text_content c = concat (map title menu)"
proof -
  obtain t where t: "DashboardSidebar menu = Inr t"
    by (simp add: DashboardSidebar_def)
  let ?items = "map menu_item menu"
  let ?c = "Element (Component ''SidebarContent'') []
             [Element (Component ''SidebarGroup'') []
                [Element (Component ''SidebarGroupContent'') []
                   [Element (Component ''SidebarMenu'') [] ?items]]]"
  have c: "content_sections t = [?c]"
    using t by (rule content_sections_DashboardSidebar)
  have 1: "map type_of ?items = map (\<lambda>e. Some (Component ''SidebarMenuItem'')) menu"
    by (simp add: type_of_menu_item)
  have 2: "map link_targets ?items = map (\<lambda>e. [url e]) menu"
    by (simp add: link_targets_menu_item)
  have 3: "map text_content ?items = map title menu"
    by (simp add: text_content_menu_item)
  have 4: "link_targets ?c = map url menu"
    using link_targets_menu [of menu] by (simp add: href_of_def)
  have 5: "text_content ?c = concat (map title menu)"
    by (simp add: text_content_menu_item comp_def)
  have "length ?items = length menu"
    by simp
  then show ?thesis
    using t c 1 2 3 4 5 by blast
qed

theorem sidebar_one_item_per_route_witness:
  "\<exists>t c items.
     DashboardSidebar
       [\<lparr>title = ''Home'', url = ''/dashboard'', icon = ''HomeIcon''\<rparr>,
        \<lparr>title = ''Settings'', url = ''/dashboard/settings'', icon = ''SettingsIcon''\<rparr>]
       = Inr t
     \<and> content_sections t = [c]
     \<and> c = Element (Component ''SidebarContent'') []
             [Element (Component ''SidebarGroup'') []
                [Element (Component ''SidebarGroupContent'') []
                   [Element (Component ''SidebarMenu'') [] items]]]
     \<and> length items = 2
     \<and> map type_of items
         = [Some (Component ''SidebarMenuItem''), Some (Component ''SidebarMenuItem'')]
     \<and> map link_targets items = [[''/dashboard''], [''/dashboard/settings'']]
     \<and> map text_content items = [''Home'', ''Settings'']
     \<and> link_targets c = [''/dashboard'', ''/dashboard/settings'']
     \<and> text_content c = ''HomeSettings''"
  using sidebar_one_item_per_route
    [of "[\<lparr>title = ''Home'', url = ''/dashboard'', icon = ''HomeIcon''\<rparr>,
          \<lparr>title = ''Settings'', url = ''/dashboard/settings'', icon = ''SettingsIcon''\<rparr>]"]
  by (simp add: numeral_2_eq_2)

section \<open>Properties of the class names\<close>

lemma split_ws_sep:
  "is_space c \<Longrightarrow> split_ws cur (a @ c # b) = split_ws cur a @ split_ws [] b"
  by (induction a arbitrary: cur) auto

lemma class_tokens_join:
  "class_tokens (a @ CHR '' '' # b) = class_tokens a @ class_tokens b"
  using split_ws_sep [of "CHR '' ''" "[]" a b] by (simp add: class_tokens_def is_space_def)

lemma class_tokens_Nil: "class_tokens [] = []"
  by (simp add: class_tokens_def)

lemma tokens_add_class:
  "class_tokens (add_class n e) = class_tokens n @ concat (map class_tokens (class_strings [e]))"
  by (cases e) (auto simp add: add_class_def class_tokens_join class_tokens_Nil)

lemma class_strings_Cons: "class_strings (e # es) = class_strings [e] @ class_strings es"
  by (cases e) auto

lemma tokens_foldl:
  "class_tokens (foldl add_class n es)
     = class_tokens n @ concat (map class_tokens (class_strings es))"
proof (induction es arbitrary: n)
  case Nil
  then show ?case by simp
next
  case (Cons e es)
  show ?case
    by (simp add: Cons.IH tokens_add_class class_strings_Cons [of e es])
qed

lemma tokens_cn: "class_tokens (cn es) = concat (map class_tokens (class_strings es))"
  by (simp add: cn_def tokens_foldl class_tokens_Nil)

lemma base_tokens:
  "class_tokens ''bg-background flex h-16 items-center gap-3 p-4 sm:gap-4''
     = [''bg-background'', ''flex'', ''h-16'', ''items-center'', ''gap-3'', ''p-4'', ''sm:gap-4'']"
  by (simp add: class_tokens_def is_space_def)

lemma fixed_tokens:
  "class_tokens ''header-fixed peer/header fixed z-50 w-[inherit] rounded-md''
     = [''header-fixed'', ''peer/header'', ''fixed'', ''z-50'', ''w-[inherit]'', ''rounded-md'']"
  by (simp add: class_tokens_def is_space_def)

lemma shadow_tokens:
  "class_tokens ''shadow-sm'' = [''shadow-sm'']"
  "class_tokens ''shadow-none'' = [''shadow-none'']"
  by (simp_all add: class_tokens_def is_space_def)

section \<open>Properties of the header\<close>

lemma class_strings_and_class:
  "class_strings (and_class f s # es) = (if truthy f then s # class_strings es else class_strings es)"
  by (cases f) (auto simp add: and_class_def truthy_def)

lemma tokens_optional_class:
  "concat (map class_tokens (class_strings [optional_class c])) = caller_classes c"
  by (cases c) (simp_all add: optional_class_def caller_classes_def)

lemma header_classes:
  "classes_of (DashboardHeader p off) = own_classes (fixed p) off @ caller_classes (className p)"
proof -
  let ?args = "[CStr ''bg-background flex h-16 items-center gap-3 p-4 sm:gap-4'',
                and_class (fixed p)
                  ''header-fixed peer/header fixed z-50 w-[inherit] rounded-md'',
                CStr (if off > 10 \<and> truthy (fixed p) then ''shadow-sm'' else ''shadow-none''),
                optional_class (className p)]"
  have "concat (map class_tokens (class_strings ?args))
          = own_classes (fixed p) off @ caller_classes (className p)"
    using tokens_optional_class [of "className p"]
    by (simp add: class_strings_and_class base_tokens fixed_tokens shadow_tokens
          own_classes_def)
  then have "class_tokens (cn ?args) = own_classes (fixed p) off @ caller_classes (className p)"
    by (simp only: tokens_cn)
  then show ?thesis
    by (simp add: classes_of_def DashboardHeader_def class_list_def)
qed

lemma own_shadow_sm:
  "''shadow-sm'' \<in> set (own_classes f off) \<longleftrightarrow> truthy f \<and> off > 10"
  by (auto simp add: own_classes_def)

lemma own_shadow_none:
  "''shadow-none'' \<in> set (own_classes f off) \<longleftrightarrow> \<not> (truthy f \<and> off > 10)"
  by (auto simp add: own_classes_def)




text \<open>Neither the effect nor its cleanup touches the offset; only a scroll event can.\<close>

lemma effect_offset [simp]: "offset (effect w) = offset w"
  by (simp add: effect_def addEventListener_def Let_def)

lemma run_cleanup_offset [simp]: "offset (run_cleanup w) = offset w"
  by (simp add: run_cleanup_def removeEventListener_def split: option.splits)

lemma step_keeps_initial_offset:
  "\<not> is_scroll e \<Longrightarrow> offset w = initial_offset \<Longrightarrow> offset (step e w) = initial_offset"
  by (cases e) simp_all

lemma run_keeps_initial_offset:
  "\<not> list_ex is_scroll evs \<Longrightarrow> offset w = initial_offset
   \<Longrightarrow> offset (run evs w) = initial_offset"
  unfolding run_def
  by (induction evs arbitrary: w) (simp_all add: step_keeps_initial_offset)

lemma mount_offset: "cleanup w = None \<Longrightarrow> offset (step Mount w) = initial_offset"
  by simp

text \<open>
  C8, as amended. The offset of the first render is 0, and it is still 0 after the
  component has mounted and after any further events among which there is no scroll
  event. At the first render and at every render until then, for every props value (with
  \<^verbatim>\<open>fixed\<close> true as well), the class list contains \<^verbatim>\<open>shadow-none\<close>, and it contains
  \<^verbatim>\<open>shadow-sm\<close> only when the caller's \<^verbatim>\<open>className\<close> itself holds that class.
\<close>

theorem header_initial_shadow:
  assumes "cleanup w = None" and "\<not> list_ex is_scroll evs"
  shows "initial_offset = 0
       \<and> ''shadow-none'' \<in> set (classes_of (DashboardHeader p initial_offset))
       \<and> (''shadow-sm'' \<in> set (classes_of (DashboardHeader p initial_offset))
            \<longleftrightarrow> ''shadow-sm'' \<in> set (caller_classes (className p)))
       \<and> offset (run (Mount # evs) w) = 0
       \<and> ''shadow-none'' \<in> set (classes_of (DashboardHeader p (offset (run (Mount # evs) w))))
       \<and> (''shadow-sm'' \<in> set (classes_of (DashboardHeader p (offset (run (Mount # evs) w))))
            \<longleftrightarrow> ''shadow-sm'' \<in> set (caller_classes (className p)))"
proof -
  have "offset (step Mount w) = initial_offset"
    using assms(1) by (rule mount_offset)
  with assms(2) have "offset (run evs (step Mount w)) = initial_offset"
    by (rule run_keeps_initial_offset)
  then have off: "offset (run (Mount # evs) w) = 0"
    by (simp add: run_def initial_offset_def)
  show ?thesis
    unfolding off by (simp add: header_classes own_shadow_sm own_shadow_none initial_offset_def)
qed

theorem header_initial_shadow_witness:
  "cleanup \<lparr>body_scrollTop = 300, documentElement_scrollTop = 0, listeners = [],
            closures = [], offset = 55, cleanup = None\<rparr> = None
   \<and> \<not> list_ex is_scroll [Unmount, Mount]
   \<and> offset (run [Mount, Unmount, Mount]
        \<lparr>body_scrollTop = 300, documentElement_scrollTop = 0, listeners = [],
         closures = [], offset = 55, cleanup = None\<rparr>) = 0
   \<and> ''shadow-none'' \<in> set (classes_of (DashboardHeader
        \<lparr>className = None, fixed = Some True, children = [], rest = []\<rparr> 0))
   \<and> ''shadow-sm'' \<notin> set (classes_of (DashboardHeader
        \<lparr>className = None, fixed = Some True, children = [], rest = []\<rparr> 0))"
proof -
  let ?w = "\<lparr>body_scrollTop = 300, documentElement_scrollTop = 0, listeners = [],
            closures = [], offset = 55, cleanup = None\<rparr>"
  let ?p = "\<lparr>className = None, fixed = Some True, children = [], rest = []\<rparr>"
  have c: "cleanup ?w = None"
    by simp
  have s: "\<not> list_ex is_scroll [Unmount, Mount]"
    by simp
  note t = header_initial_shadow [OF c s, of ?p]
  have o: "offset (run [Mount, Unmount, Mount] ?w) = 0"
    using t by blast
  have "''shadow-none'' \<in> set (classes_of (DashboardHeader ?p
          (offset (run [Mount, Unmount, Mount] ?w))))"
    using t by blast
  then have n: "''shadow-none'' \<in> set (classes_of (DashboardHeader ?p 0))"
    unfolding o .
  have "''shadow-sm'' \<in> set (classes_of (DashboardHeader ?p
          (offset (run [Mount, Unmount, Mount] ?w))))
        \<longleftrightarrow> ''shadow-sm'' \<in> set (caller_classes (className ?p))"
    using t by blast
  then have m: "''shadow-sm'' \<notin> set (classes_of (DashboardHeader ?p 0))"
    unfolding o by (simp add: caller_classes_def)
  show ?thesis
    using c s o n m by blast
qed

text \<open>
  For every props value the claim fails at the first render too: with \<^verbatim>\<open>fixed\<close> true
  and \<^verbatim>\<open>shadow-sm\<close> as the caller's \<^verbatim>\<open>className\<close> the class list contains \<^verbatim>\<open>shadow-sm\<close>.
\<close>

theorem header_initial_shadow_counterexample:
  "''shadow-sm'' \<in> set (classes_of (DashboardHeader
      \<lparr>className = Some ''shadow-sm'', fixed = Some True, children = [], rest = []\<rparr>
      initial_offset))"
  by (simp add: header_classes caller_classes_def class_tokens_def is_space_def)

section \<open>Properties of the scroll effect\<close>

lemma onScroll_frame [simp]:
  "listeners (onScroll w) = listeners w" "closures (onScroll w) = closures w"
  "cleanup (onScroll w) = cleanup w" "body_scrollTop (onScroll w) = body_scrollTop w"
  "documentElement_scrollTop (onScroll w) = documentElement_scrollTop w"
  by (simp_all add: onScroll_def)

lemma call_listener_frame [simp]:
  "listeners (call_listener l w) = listeners w" "closures (call_listener l w) = closures w"
  "cleanup (call_listener l w) = cleanup w"
  by (simp_all add: call_listener_def split: closure.splits)

lemma fold_call_listener_frame:
  "listeners (fold call_listener ls w) = listeners w \<and>
   closures (fold call_listener ls w) = closures w \<and>
   cleanup (fold call_listener ls w) = cleanup w"
  by (induction ls arbitrary: w) simp_all

lemma dispatch_frame [simp]:
  "listeners (dispatch ty w) = listeners w" "closures (dispatch ty w) = closures w"
  "cleanup (dispatch ty w) = cleanup w"
  by (simp_all add: dispatch_def fold_call_listener_frame)

lemma remove_first_last:
  "\<not> list_ex P xs \<Longrightarrow> P x \<Longrightarrow> remove_first P (xs @ [x]) = xs"
  by (induction xs) auto

lemma attached_unmounted: "unmounted w \<Longrightarrow> attached (listeners w) w"
  by (simp add: unmounted_def attached_def)

lemma effect_listeners:
  assumes "list_all (\<lambda>l. callback l < length (closures w)) (listeners w)"
  shows "listeners (effect w) = listeners w @ [scroll_listener (length (closures w))]"
proof -
  have "\<not> list_ex (same_listener ''scroll'' (length (closures w)) False) (listeners w)"
    using assms by (auto simp add: list_ex_iff list_all_iff same_listener_def)
  then show ?thesis
    by (simp add: effect_def addEventListener_def scroll_listener_def Let_def)
qed

lemma effect_frame [simp]:
  "cleanup (effect w) = Some (length (closures w))"
  "closures (effect w) = closures w @ [OnScroll]"
  by (simp_all add: effect_def addEventListener_def Let_def)

lemma attached_Mount: "attached L w \<Longrightarrow> attached L (step Mount w)"
proof (cases "cleanup w")
  case None
  assume a: "attached L w"
  let ?v = "w\<lparr>offset := initial_offset\<rparr>"
  have all: "list_all (\<lambda>l. callback l < length (closures ?v)) (listeners ?v)"
    using a by (simp add: attached_def)
  have L: "listeners w = L" using a None by (simp add: attached_def)
  have ls: "listeners (effect ?v) = L @ [scroll_listener (length (closures w))]"
    using effect_listeners [OF all] L by simp
  have fresh: "list_all (\<lambda>l. callback l \<noteq> length (closures w)) L"
    using a L by (auto simp add: attached_def list_all_iff)
  have old: "list_all (\<lambda>l. callback l < Suc (length (closures w))) L"
    using a L by (auto simp add: attached_def list_all_iff)
  show ?thesis
    using None ls fresh old by (simp add: attached_def scroll_listener_def)
next
  case (Some h)
  assume "attached L w"
  then show ?thesis using Some by simp
qed

lemma attached_Unmount: "attached L w \<Longrightarrow> attached L (step Unmount w)"
proof (cases "cleanup w")
  case None
  assume "attached L w"
  then show ?thesis using None by (simp add: run_cleanup_def)
next
  case (Some h)
  assume a: "attached L w"
  have ls: "listeners w = L @ [scroll_listener h]" and fresh: "list_all (\<lambda>l. callback l \<noteq> h) L"
    using a Some by (simp_all add: attached_def)
  have "\<not> list_ex (same_listener ''scroll'' h False) L"
    using fresh by (auto simp add: list_ex_iff list_all_iff same_listener_def)
  moreover have "same_listener ''scroll'' h False (scroll_listener h)"
    by (simp add: same_listener_def scroll_listener_def)
  ultimately have "remove_first (same_listener ''scroll'' h False) (L @ [scroll_listener h]) = L"
    by (rule remove_first_last)
  then have "listeners (run_cleanup w) = L" "cleanup (run_cleanup w) = None"
    "closures (run_cleanup w) = closures w"
    using Some ls by (simp_all add: run_cleanup_def removeEventListener_def)
  then show ?thesis
    using a ls by (simp add: attached_def)
qed

lemma attached_Scroll: "attached L w \<Longrightarrow> attached L (step (Scroll b d) w)"
  by (simp add: attached_def split: option.splits)

lemma attached_step: "attached L w \<Longrightarrow> attached L (step e w)"
  by (cases e) (simp_all only: attached_Mount attached_Unmount attached_Scroll)

lemma attached_run: "attached L w \<Longrightarrow> attached L (run evs w)"
  unfolding run_def by (induction evs arbitrary: w) (simp_all add: attached_step)

lemma call_listener_positions [simp]:
  "body_scrollTop (call_listener l w) = body_scrollTop w"
  "documentElement_scrollTop (call_listener l w) = documentElement_scrollTop w"
  by (simp_all add: call_listener_def split: closure.splits)

lemma fold_call_listener_positions:
  "body_scrollTop (fold call_listener ls w) = body_scrollTop w \<and>
   documentElement_scrollTop (fold call_listener ls w) = documentElement_scrollTop w"
  by (induction ls arbitrary: w) simp_all

text \<open>
  A scroll event fired while the header is mounted reaches the callback: afterwards the
  offset is the body's scroll position if that is not 0, else the document element's.
\<close>

lemma scroll_event_sets_offset:
  assumes "attached L w" and "cleanup w = Some h"
  shows "offset (step (Scroll b d) w) = (if b \<noteq> 0 then b else d)"
proof -
  let ?v = "w\<lparr>body_scrollTop := b, documentElement_scrollTop := d\<rparr>"
  let ?ls = "filter (\<lambda>l. event_type l = ''scroll'') L"
  let ?u = "fold call_listener ?ls ?v"
  have ls: "listeners w = L @ [scroll_listener h]"
    and h: "h < length (closures w)" "closures w ! h = OnScroll"
    using assms by (simp_all add: attached_def)
  have "dispatch ''scroll'' ?v = call_listener (scroll_listener h) ?u"
    using ls by (simp add: dispatch_def scroll_listener_def)
  moreover have "closures ?u = closures w"
    by (simp add: fold_call_listener_frame)
  ultimately have disp: "dispatch ''scroll'' ?v = onScroll ?u"
    using h by (simp add: call_listener_def scroll_listener_def)
  have u: "body_scrollTop ?u = b" "documentElement_scrollTop ?u = d"
    by (simp_all add: fold_call_listener_positions)
  have "offset (onScroll ?u)
          = (if body_scrollTop ?u \<noteq> 0 then body_scrollTop ?u
             else documentElement_scrollTop ?u)"
    by (simp add: onScroll_def)
  then have "offset (onScroll ?u) = (if b \<noteq> 0 then b else d)"
    by (simp only: u)
  then show ?thesis
    by (simp only: step.simps disp)
qed

text \<open>
  C3. A call of the scroll callback sets the offset to the body's scroll position when
  that is not 0 and to the document element's otherwise, and changes nothing else of the
  state.
\<close>

theorem onScroll_sets_offset:
  "offset (onScroll w)
     = (if body_scrollTop w \<noteq> 0 then body_scrollTop w else documentElement_scrollTop w)
   \<and> onScroll w = w\<lparr>offset := offset (onScroll w)\<rparr>"
  by (simp add: onScroll_def)

theorem onScroll_sets_offset_witness:
  "offset (onScroll \<lparr>body_scrollTop = 0, documentElement_scrollTop = 120, listeners = [],
             closures = [], offset = 0, cleanup = None\<rparr>) = 120
   \<and> offset (onScroll \<lparr>body_scrollTop = 35, documentElement_scrollTop = 120, listeners = [],
             closures = [], offset = 0, cleanup = None\<rparr>) = 35"
  using onScroll_sets_offset
    [of "\<lparr>body_scrollTop = 0, documentElement_scrollTop = 120, listeners = [],
           closures = [], offset = 0, cleanup = None\<rparr>"]
    onScroll_sets_offset
    [of "\<lparr>body_scrollTop = 35, documentElement_scrollTop = 120, listeners = [],
           closures = [], offset = 0, cleanup = None\<rparr>"]
  by simp

text \<open>
  C9. Mounted into a document, the effect appends exactly one listener, of type
  \<^verbatim>\<open>scroll\<close>, for the closure it has just made, and its cleanup holds that closure;
  running the cleanup gives back the listener list the component found. Over any
  sequence of mounts, unmounts and scroll events: while the component is unmounted the
  listener list is the one it found, and while it is mounted there is exactly one
  listener more, that of the pending cleanup's closure.
\<close>

theorem scroll_listener_lifecycle:
  assumes "unmounted w"
  shows "listeners (step Mount w) = listeners w @ [scroll_listener (length (closures w))]
       \<and> cleanup (step Mount w) = Some (length (closures w))
       \<and> listeners (step Unmount (step Mount w)) = listeners w
       \<and> (case cleanup (run evs w) of
            None \<Rightarrow> listeners (run evs w) = listeners w
          | Some h \<Rightarrow> listeners (run evs w) = listeners w @ [scroll_listener h]
                      \<and> \<not> list_ex (\<lambda>l. callback l = h) (listeners w))"
proof -
  have a: "attached (listeners w) w"
    using assms by (rule attached_unmounted)
  have all: "list_all (\<lambda>l. callback l < length (closures (w\<lparr>offset := initial_offset\<rparr>)))
               (listeners (w\<lparr>offset := initial_offset\<rparr>))"
    using assms by (simp add: unmounted_def)
  have none: "cleanup w = None"
    using assms by (simp add: unmounted_def)
  have m1: "listeners (step Mount w) = listeners w @ [scroll_listener (length (closures w))]"
    using effect_listeners [OF all] none by simp
  have m2: "cleanup (step Mount w) = Some (length (closures w))"
    using none by simp
  have "attached (listeners w) (step Unmount (step Mount w))"
    using a by (simp only: attached_Mount attached_Unmount)
  moreover have "cleanup (step Unmount (step Mount w)) = None"
    using m2 by (simp add: run_cleanup_def)
  ultimately have m3: "listeners (step Unmount (step Mount w)) = listeners w"
    by (simp add: attached_def)
  have "attached (listeners w) (run evs w)"
    using a by (rule attached_run)
  then have m4: "case cleanup (run evs w) of
            None \<Rightarrow> listeners (run evs w) = listeners w
          | Some h \<Rightarrow> listeners (run evs w) = listeners w @ [scroll_listener h]
                      \<and> \<not> list_ex (\<lambda>l. callback l = h) (listeners w)"
    by (auto simp add: attached_def list_ex_iff list_all_iff split: option.splits)
  show ?thesis
    using m1 m2 m3 m4 by simp
qed

theorem scroll_listener_lifecycle_witness:
  "unmounted \<lparr>body_scrollTop = 0, documentElement_scrollTop = 0, listeners = [],
              closures = [], offset = 0, cleanup = None\<rparr>
   \<and> listeners (step Mount \<lparr>body_scrollTop = 0, documentElement_scrollTop = 0, listeners = [],
              closures = [], offset = 0, cleanup = None\<rparr>) = [scroll_listener 0]
   \<and> listeners (step Unmount (step Mount \<lparr>body_scrollTop = 0, documentElement_scrollTop = 0,
              listeners = [], closures = [], offset = 0, cleanup = None\<rparr>)) = []"
proof -
  have u: "unmounted \<lparr>body_scrollTop = 0, documentElement_scrollTop = 0, listeners = [],
              closures = [], offset = 0, cleanup = None\<rparr>"
    by (simp add: unmounted_def)
  show ?thesis
    using u scroll_listener_lifecycle [OF u, of "[]"] by simp
qed

section \<open>Properties of the layouts and the pages\<close>

text \<open>
  C6. For every children value each route-level layout returns the element of its layout
  component with those children, no props and nothing around it; rendering that element
  calls \<^verbatim>\<open>DashboardLayout\<close>, respectively \<^verbatim>\<open>PublicLayout\<close>, with exactly those children.
\<close>

theorem route_layouts_forward:
  "Layout_dashboard kids = Inr (Element (Component ''DashboardLayout'') [] kids)
   \<and> Layout_public kids = Inr (Element (Component ''PublicLayout'') [] kids)
   \<and> (\<exists>t. Layout_dashboard kids = Inr t
          \<and> call_layout PublicLayout t = Some (DashboardLayout kids))
   \<and> (\<exists>t. Layout_public kids = Inr t
          \<and> call_layout PublicLayout t = Some (PublicLayout kids))"
  by (simp add: Layout_dashboard_def Layout_public_def call_layout_def)

theorem route_layouts_forward_witness:
  "Layout_dashboard [Text ''page''] = Inr (Element (Component ''DashboardLayout'') [] [Text ''page''])
   \<and> Layout_public [Text ''page''] = Inr (Element (Component ''PublicLayout'') [] [Text ''page''])"
  using route_layouts_forward [of "[Text ''page'']"] by simp

text \<open>
  C10. The \<^verbatim>\<open>ProfileDropdown\<close> of the sidebar's footer and that of the page's header
  receive user objects with the same name, email and avatar, and their props differ only
  in \<^verbatim>\<open>side\<close>, which is \<^verbatim>\<open>right\<close> in the sidebar and \<^verbatim>\<open>bottom\<close> on the page.
\<close>

theorem profile_users_equal:
  "sidebar_profile_props menu = Some [(''user'', Obj sidebar_user), (''side'', Str ''right'')]
   \<and> page_profile_props = Some [(''user'', Obj page_user), (''side'', Str ''bottom'')]
   \<and> name sidebar_user = name page_user
   \<and> email sidebar_user = email page_user
   \<and> avatar sidebar_user = avatar page_user
   \<and> map_option (filter (\<lambda>kv. fst kv \<noteq> ''side'')) (sidebar_profile_props menu)
       = map_option (filter (\<lambda>kv. fst kv \<noteq> ''side'')) page_profile_props"
  by (simp add: sidebar_profile_props_def page_profile_props_def DashboardSidebar_def
        DashboardPage_profile_def footer_profile_def header_profile_def child_named_def
        sidebar_user_def page_user_def)

theorem profile_users_equal_witness:
  "sidebar_profile_props [] = Some [(''user'', Obj sidebar_user), (''side'', Str ''right'')]
   \<and> page_profile_props = Some [(''user'', Obj page_user), (''side'', Str ''bottom'')]
   \<and> name sidebar_user = name page_user"
  using profile_users_equal [of "[]"] by simp
















text \<open>
  C7. For every input each exported component returns an element: none of them throws
  or returns an error value.
\<close>

theorem components_return:
  "(\<exists>n. DashboardSidebar menu = Inr n)
   \<and> (\<exists>n. DashboardHeader p off = Inr n)
   \<and> (\<exists>n. DashboardLayout kids = Inr n)
   \<and> (\<exists>n. PublicHeader = Inr n)
   \<and> (\<exists>n. Layout_dashboard kids = Inr n)
   \<and> (\<exists>n. Layout_public kids = Inr n)
   \<and> (\<exists>n. DashboardPage_profile = Inr n)
   \<and> (\<exists>n. DashboardPage_plain = Inr n)"
  by (simp add: DashboardSidebar_def DashboardHeader_def DashboardLayout_def PublicHeader_def
        Layout_dashboard_def Layout_public_def DashboardPage_profile_def
        DashboardPage_plain_def)

theorem components_return_witness:
  "(\<exists>n. DashboardSidebar [] = Inr n)
   \<and> (\<exists>n. DashboardHeader \<lparr>className = None, fixed = None, children = [], rest = []\<rparr> 0
            = Inr n)
   \<and> (\<exists>n. PublicHeader = Inr n)"
  using components_return
    [of "[]" "\<lparr>className = None, fixed = None, children = [], rest = []\<rparr>" 0]
  by simp

section \<open>Properties of the authentication configuration\<close>

text \<open>
  C4. The configuration given to \<^verbatim>\<open>NextAuth\<close> lists exactly one provider, Google, and
  its adapter is \<^verbatim>\<open>PrismaAdapter\<close> over the shared \<^verbatim>\<open>prisma\<close> client.
\<close>

theorem nextauth_provider_and_adapter:
  "providers nextauth_config = [Google]
   \<and> length (providers nextauth_config) = 1
   \<and> adapter nextauth_config = PrismaAdapter prisma"
  by (simp add: nextauth_config_def)

theorem nextauth_provider_and_adapter_witness:
  "providers nextauth_config = [Provider ''next-auth/providers/google'']
   \<and> adapter nextauth_config = PrismaAdapter (Client ''@/shared/lib/prisma'')"
  using nextauth_provider_and_adapter by (simp add: Google_def prisma_def)

end
